theory Spec2Isabelle
  imports Complex_Main
begin

section \<open>Zoom slider and help overlay of the graph controls\<close>

text \<open>
  A shallow embedding of \<^verbatim>\<open>src/components/graph-controls.js\<close>. JavaScript numbers
  are modelled as real numbers: rounding, NaN and the infinities of IEEE doubles are
  outside the model, so an equality proved here is the exact one that the program
  approximates. An optional prop is an \<open>option\<close>, with \<open>None\<close> for
  \<^verbatim>\<open>undefined\<close>.
\<close>

subsection \<open>Constants and props\<close>

text \<open>
  The module \<^verbatim>\<open>../constants\<close> is imported by the component and is not part of the
  sources at hand, so the three constants that are read from it are a parameter of every
  function that uses them.
\<close>

record constants =
  DEFAULT_MAX_ZOOM :: real
  DEFAULT_MIN_ZOOM :: real
  SLIDER_STEPS :: nat

text \<open>
  \<^verbatim>\<open>IGraphControlProps\<close>. The two callbacks \<^verbatim>\<open>zoomToFit\<close> and \<^verbatim>\<open>modifyZoom\<close> belong
  to the host; a call of \<^verbatim>\<open>modifyZoom\<close> is recorded in the state below.
\<close>

record props =
  maxZoom :: "real option"
  minZoom :: "real option"
  zoomLevel :: real
  showHelp :: "bool option"
  allowMultiSelect :: "bool option"

text \<open>Default parameters \<^verbatim>\<open>maxZoom = DEFAULT_MAX_ZOOM\<close>, \<^verbatim>\<open>minZoom = DEFAULT_MIN_ZOOM\<close>:
  the default replaces \<^verbatim>\<open>undefined\<close> only.\<close>

definition max_zoom :: "constants \<Rightarrow> props \<Rightarrow> real" where
  "max_zoom cs p = (case maxZoom p of None \<Rightarrow> DEFAULT_MAX_ZOOM cs | Some m \<Rightarrow> m)"

definition min_zoom :: "constants \<Rightarrow> props \<Rightarrow> real" where
  "min_zoom cs p = (case minZoom p of None \<Rightarrow> DEFAULT_MIN_ZOOM cs | Some m \<Rightarrow> m)"

text \<open>Truthiness of an optional boolean prop: \<^verbatim>\<open>undefined\<close> and \<^verbatim>\<open>false\<close> are falsy.\<close>

fun truthy :: "bool option \<Rightarrow> bool" where
  "truthy None = False"
| "truthy (Some b) = b"

text \<open>\<^verbatim>\<open>a || b\<close> on numbers: the left operand unless it is falsy, and a real number is
  falsy exactly when it is zero.\<close>

definition js_or :: "real \<Rightarrow> real \<Rightarrow> real" where
  "js_or a b = (if a \<noteq> 0 then a else b)"

subsection \<open>The zoom-range mapper\<close>

text \<open>\<^verbatim>\<open>sliderToZoom(val, minZoom, maxZoom)\<close>: slider value (0 to steps) to the zoom range.\<close>

definition sliderToZoom :: "constants \<Rightarrow> real \<Rightarrow> real \<Rightarrow> real \<Rightarrow> real" where
  "sliderToZoom cs val lo hi = (val * (hi - lo)) / real (SLIDER_STEPS cs) + lo"

text \<open>Modelled from the spec: the hook \<^verbatim>\<open>useZoomLevelToSliderValue\<close> is imported from
  \<^verbatim>\<open>../hooks/useZoomLevelToSliderValue\<close>, which is not among the sources. The spec gives
  the forward map as \<open>((zoomLevel - min) / (max - min)) * STEPS\<close>, without clamping.\<close>

definition useZoomLevelToSliderValue :: "constants \<Rightarrow> real \<Rightarrow> real \<Rightarrow> real \<Rightarrow> real" where
  "useZoomLevelToSliderValue cs z lo hi = ((z - lo) / (hi - lo)) * real (SLIDER_STEPS cs)"

subsection \<open>DOM nodes and events\<close>

text \<open>
  A DOM element is a node with its child nodes; nodes are told apart by an identifier.
  \<^verbatim>\<open>Node.contains\<close> holds for the node itself and for every descendant: containment in
  the subtree, not a test on coordinates.
\<close>

datatype element = Element (node_id: nat) (childNodes: "element list")

fun contains :: "element \<Rightarrow> nat \<Rightarrow> bool" where
  "contains (Element i cs) t = (i = t \<or> (\<exists>c \<in> set cs. contains c t))"

text \<open>The click event with its \<^verbatim>\<open>target\<close> node, and the change event of the range
  input with \<^verbatim>\<open>target.value\<close>. The value of an input is a numeric string that the
  multiplication in \<open>sliderToZoom\<close> converts; the model starts from the number.\<close>

record click_event =
  target :: nat

record change_event =
  target_value :: real

datatype error = TypeError

subsection \<open>State of a component instance and of its surroundings\<close>

text \<open>
  One record holds what a mounted \<^verbatim>\<open>GraphControls\<close> reads and writes: the hook state
  (\<^verbatim>\<open>useState(false)\<close>, \<^verbatim>\<open>useRef()\<close>, the pending cleanup of the effect), the props
  of the latest render, the click listeners registered on \<^verbatim>\<open>document\<close>, the calls made
  to the \<^verbatim>\<open>modifyZoom\<close> prop and the exceptions that escaped a listener. Every render
  creates a new \<^verbatim>\<open>handleDocumentClick\<close> closure; a closure is identified by the number
  of the render that created it, and \<open>effect_cleanup\<close> remembers the closure that the
  returned cleanup function captured.
\<close>

record state =
  mounted :: bool
  cur_props :: props
  helpShowing :: bool
  helpContainerRef :: "element option"
  renders :: nat
  effect_cleanup :: "nat option"
  click_listeners :: "nat list"
  modifyZoom_calls :: "real list"
  uncaught :: "error list"

definition modifyZoom :: "real \<Rightarrow> state \<Rightarrow> state" where
  "modifyZoom delta s = s\<lparr>modifyZoom_calls := modifyZoom_calls s @ [delta]\<rparr>"

subsection \<open>The zoom handler\<close>

text \<open>The in-range test as the source writes it, and the plain interval test.\<close>

definition in_range_as_written :: "real \<Rightarrow> real \<Rightarrow> real \<Rightarrow> bool" where
  "in_range_as_written zoomLevelNext lo hi =
     (zoomLevelNext \<le> js_or hi 0 \<and> zoomLevelNext \<ge> js_or lo 0)"

definition in_range_plain :: "real \<Rightarrow> real \<Rightarrow> real \<Rightarrow> bool" where
  "in_range_plain zoomLevelNext lo hi = (lo \<le> zoomLevelNext \<and> zoomLevelNext \<le> hi)"

text \<open>\<^verbatim>\<open>zoom\<close>, the \<^verbatim>\<open>onChange\<close> handler of the slider. Its dependency list names every
  prop it reads, so it always works on the props of the latest render.\<close>

definition zoom :: "constants \<Rightarrow> change_event \<Rightarrow> state \<Rightarrow> state" where
  "zoom cs e s =
     (let sliderVal = target_value e;
          lo = min_zoom cs (cur_props s);
          hi = max_zoom cs (cur_props s);
          zoomLevelNext = sliderToZoom cs sliderVal lo hi;
          delta = zoomLevelNext - zoomLevel (cur_props s)
      in if in_range_as_written zoomLevelNext lo hi then modifyZoom delta s else s)"

subsection \<open>The document click handler\<close>

text \<open>\<^verbatim>\<open>handleDocumentClick\<close>. Reading \<^verbatim>\<open>contains\<close> from a reference that is
  \<^verbatim>\<open>undefined\<close> or \<^verbatim>\<open>null\<close> throws a TypeError before anything is written.
  \<^verbatim>\<open>setHelpShowing(false)\<close> writes the state; the render that follows is the event
  loop's, below.\<close>

definition handleDocumentClick :: "click_event \<Rightarrow> state \<Rightarrow> error + state" where
  "handleDocumentClick e s =
     (case helpContainerRef s of
        None \<Rightarrow> Inl TypeError
      | Some el \<Rightarrow>
          if \<not> contains el (target e) then Inr (s\<lparr>helpShowing := False\<rparr>) else Inr s)"

subsection \<open>Effect, render and commit\<close>

text \<open>\<^verbatim>\<open>document.addEventListener\<close> ignores a listener that is registered already;
  \<^verbatim>\<open>document.removeEventListener\<close> removes the listener if it is registered.\<close>

definition addEventListener :: "nat \<Rightarrow> nat list \<Rightarrow> nat list" where
  "addEventListener h ls = (if h \<in> set ls then ls else ls @ [h])"

definition removeEventListener :: "nat \<Rightarrow> nat list \<Rightarrow> nat list" where
  "removeEventListener h ls = remove1 h ls"

text \<open>The body of the effect, run with the closure of the current render, and the
  cleanup function it returned (none in the branch that returns early).\<close>

definition run_effect :: "state \<Rightarrow> state" where
  "run_effect s =
     (let h = renders s in
      if \<not> truthy (showHelp (cur_props s))
      then s\<lparr>click_listeners := removeEventListener h (click_listeners s),
             effect_cleanup := None\<rparr>
      else s\<lparr>click_listeners := addEventListener h (click_listeners s),
             effect_cleanup := Some h\<rparr>)"

definition run_cleanup :: "state \<Rightarrow> state" where
  "run_cleanup s =
     (case effect_cleanup s of
        None \<Rightarrow> s
      | Some h \<Rightarrow> s\<lparr>click_listeners := removeEventListener h (click_listeners s),
                     effect_cleanup := None\<rparr>)"

text \<open>What the component returns, as far as it depends on props and state.\<close>

record help_menu =
  multi_select_item :: bool

record help_container =
  button_className :: string
  menu :: "help_menu option"

record view =
  slider_min :: real
  slider_max :: real
  slider_value :: real
  help_area :: "help_container option"

definition render :: "constants \<Rightarrow> state \<Rightarrow> view" where
  "render cs s =
     (let p = cur_props s; lo = min_zoom cs p; hi = max_zoom cs p in
      \<lparr>slider_min = useZoomLevelToSliderValue cs lo lo hi,
       slider_max = useZoomLevelToSliderValue cs hi lo hi,
       slider_value = useZoomLevelToSliderValue cs (zoomLevel p) lo hi,
       help_area =
         (if truthy (showHelp p)
          then Some \<lparr>button_className =
                        (if helpShowing s then ''help-button help-showing'' else ''help-button''),
                      menu =
                        (if helpShowing s
                         then Some \<lparr>multi_select_item = truthy (allowMultiSelect p)\<rparr>
                         else None)\<rparr>
          else None)\<rparr>)"

text \<open>
  The commit of a render sets the reference to the element of \<^verbatim>\<open>div.help-container\<close>
  when that element is in the output and to \<^verbatim>\<open>null\<close> when it is not. The element is
  the host's: \<open>host b\<close> is the subtree it builds for the container when the menu is
  shown (\<open>b\<close>) or hidden.
\<close>

definition attach_ref :: "(bool \<Rightarrow> element) \<Rightarrow> state \<Rightarrow> state" where
  "attach_ref host s =
     s\<lparr>helpContainerRef :=
         (if truthy (showHelp (cur_props s)) then Some (host (helpShowing s)) else None)\<rparr>"

text \<open>A render caused by a state change: a new closure, the same dependencies, so the
  effect does not run.\<close>

definition rerender :: "(bool \<Rightarrow> element) \<Rightarrow> state \<Rightarrow> state" where
  "rerender host s = attach_ref host (s\<lparr>renders := Suc (renders s)\<rparr>)"

text \<open>The first render: \<^verbatim>\<open>useState(false)\<close>, \<^verbatim>\<open>useRef()\<close>, commit, effect.\<close>

definition mount :: "(bool \<Rightarrow> element) \<Rightarrow> props \<Rightarrow> state" where
  "mount host p =
     run_effect (attach_ref host
       \<lparr>mounted = True, cur_props = p, helpShowing = False, helpContainerRef = None,
        renders = 1, effect_cleanup = None, click_listeners = [],
        modifyZoom_calls = [], uncaught = []\<rparr>)"

text \<open>A render with new props. The effect depends on \<^verbatim>\<open>[showHelp]\<close>: when that value
  differs from the one of the previous render, the pending cleanup runs and then the
  effect. A render, its commit and the effects that follow it are one step of the model:
  no event is handled between the commit and the effects.\<close>

definition update :: "(bool \<Rightarrow> element) \<Rightarrow> props \<Rightarrow> state \<Rightarrow> state" where
  "update host p s =
     (let s1 = attach_ref host (s\<lparr>cur_props := p, renders := Suc (renders s)\<rparr>) in
      if showHelp p \<noteq> showHelp (cur_props s) then run_effect (run_cleanup s1) else s1)"

definition unmount :: "state \<Rightarrow> state" where
  "unmount s = (run_cleanup s)\<lparr>mounted := False, helpContainerRef := None\<rparr>"

subsection \<open>Events\<close>

text \<open>One listener call made by the event loop: an exception that escapes is reported
  and the state stays as it was; a changed \<open>helpShowing\<close> is followed by a render.\<close>

definition invoke :: "(bool \<Rightarrow> element) \<Rightarrow> click_event \<Rightarrow> state \<Rightarrow> state" where
  "invoke host e s =
     (case handleDocumentClick e s of
        Inl err \<Rightarrow> s\<lparr>uncaught := uncaught s @ [err]\<rparr>
      | Inr s' \<Rightarrow> if helpShowing s' \<noteq> helpShowing s then rerender host s' else s')"

fun dispatch :: "(bool \<Rightarrow> element) \<Rightarrow> nat list \<Rightarrow> click_event \<Rightarrow> state \<Rightarrow> state" where
  "dispatch host [] e s = s"
| "dispatch host (h # hs) e s = dispatch host hs e (invoke host e s)"

text \<open>What can happen to a mounted component: new props from the parent, a mouse-down on
  the help button (possible only while the button is rendered), a click somewhere in the
  document, a change of the slider, and the teardown.\<close>

datatype event =
    Update props
  | HelpMouseDown
  | DocumentClick click_event
  | SliderChange change_event
  | Unmount

fun step :: "constants \<Rightarrow> (bool \<Rightarrow> element) \<Rightarrow> event \<Rightarrow> state \<Rightarrow> state" where
  "step cs host (Update p) s = (if mounted s then update host p s else s)"
| "step cs host HelpMouseDown s =
     (if mounted s \<and> truthy (showHelp (cur_props s))
      then rerender host (s\<lparr>helpShowing := \<not> helpShowing s\<rparr>) else s)"
| "step cs host (DocumentClick e) s = dispatch host (click_listeners s) e s"
| "step cs host (SliderChange e) s = (if mounted s then zoom cs e s else s)"
| "step cs host Unmount s = (if mounted s then unmount s else s)"

definition run :: "constants \<Rightarrow> (bool \<Rightarrow> element) \<Rightarrow> event list \<Rightarrow> state \<Rightarrow> state" where
  "run cs host evs s = fold (step cs host) evs s"

subsection \<open>Concrete inputs\<close>

definition example_constants :: constants where
  "example_constants = \<lparr>DEFAULT_MAX_ZOOM = 3 / 2, DEFAULT_MIN_ZOOM = 3 / 20, SLIDER_STEPS = 100\<rparr>"

text \<open>Bounds 1 and 2, zoom level 1.5, help enabled or disabled.\<close>

definition example_props :: "bool \<Rightarrow> props" where
  "example_props h =
     \<lparr>maxZoom = Some 2, minZoom = Some 1, zoomLevel = 3 / 2, showHelp = Some h,
      allowMultiSelect = None\<rparr>"

text \<open>The container is node 10, the button 11 with its icon 12, the menu 13.\<close>

fun example_host :: "bool \<Rightarrow> element" where
  "example_host b =
     Element 10 (Element 11 [Element 12 []] # (if b then [Element 13 []] else []))"

definition inside_click :: click_event where
  "inside_click = \<lparr>target = 12\<rparr>"

definition outside_click :: click_event where
  "outside_click = \<lparr>target = 99\<rparr>"

definition example_closed :: state where
  "example_closed = mount example_host (example_props True)"

definition example_open :: state where
  "example_open = step example_constants example_host HelpMouseDown example_closed"

definition example_hidden :: state where
  "example_hidden = mount example_host (example_props False)"

definition example_open_hidden :: state where
  "example_open_hidden =
     step example_constants example_host (Update (example_props False)) example_open"

definition example_reclosed :: state where
  "example_reclosed =
     run example_constants example_host [HelpMouseDown, DocumentClick outside_click]
       (mount example_host (example_props True))"

subsection \<open>Properties of reachable states\<close>

text \<open>What holds after the mount and after every event: the document has the click
  listener of this component exactly while a cleanup is pending, that is exactly while
  the component is mounted with a truthy \<^verbatim>\<open>showHelp\<close>, and the reference is set
  exactly then.\<close>

definition lifecycle_inv :: "(bool \<Rightarrow> element) \<Rightarrow> state \<Rightarrow> bool" where
  "lifecycle_inv host s =
     (let active = (mounted s \<and> truthy (showHelp (cur_props s))) in
      click_listeners s = (case effect_cleanup s of None \<Rightarrow> [] | Some h \<Rightarrow> [h])
      \<and> (effect_cleanup s \<noteq> None) = active
      \<and> helpContainerRef s = (if active then Some (host (helpShowing s)) else None))"

text \<open>Events that leave the help overlay disabled: the parent never passes a truthy
  \<^verbatim>\<open>showHelp\<close>.\<close>

fun keeps_help_off :: "event \<Rightarrow> bool" where
  "keeps_help_off (Update p) = (\<not> truthy (showHelp p))"
| "keeps_help_off _ = True"

definition help_off :: "state \<Rightarrow> bool" where
  "help_off s = (\<not> truthy (showHelp (cur_props s)) \<and> \<not> helpShowing s)"

section \<open>Lemmas\<close>

subsection \<open>The gate of the zoom handler\<close>

lemma js_or_zero: "js_or a 0 = a"
  by (simp add: js_or_def)

lemma in_range_as_written_iff: "in_range_as_written z lo hi \<longleftrightarrow> lo \<le> z \<and> z \<le> hi"
  by (auto simp: in_range_as_written_def js_or_zero)

subsection \<open>The lifecycle invariant\<close>

lemma helpShowing_rerender [simp]: "helpShowing (rerender host s) = helpShowing s"
  by (simp add: rerender_def attach_ref_def)

lemma inv_mount: "lifecycle_inv host (mount host p)"
  by (simp add: lifecycle_inv_def mount_def run_effect_def attach_ref_def Let_def
      addEventListener_def removeEventListener_def)

lemma inv_rerender:
  "lifecycle_inv host s \<Longrightarrow> mounted s \<Longrightarrow> lifecycle_inv host (rerender host (s\<lparr>helpShowing := b\<rparr>))"
  by (auto simp: lifecycle_inv_def rerender_def attach_ref_def Let_def split: option.splits)

lemma inv_update: "lifecycle_inv host s \<Longrightarrow> mounted s \<Longrightarrow> lifecycle_inv host (update host p s)"
  by (auto simp: lifecycle_inv_def update_def run_effect_def run_cleanup_def attach_ref_def
      Let_def addEventListener_def removeEventListener_def split: option.splits)

lemma inv_unmount: "lifecycle_inv host s \<Longrightarrow> lifecycle_inv host (unmount s)"
  by (auto simp: lifecycle_inv_def unmount_def run_cleanup_def Let_def
      removeEventListener_def split: option.splits)

lemma inv_zoom: "lifecycle_inv host s \<Longrightarrow> lifecycle_inv host (zoom cs e s)"
  by (simp add: lifecycle_inv_def zoom_def modifyZoom_def Let_def)

lemma inv_invoke: "lifecycle_inv host s \<Longrightarrow> lifecycle_inv host (invoke host e s)"
  by (auto simp: invoke_def handleDocumentClick_def lifecycle_inv_def rerender_def
      attach_ref_def Let_def split: option.splits)

lemma inv_dispatch: "lifecycle_inv host s \<Longrightarrow> lifecycle_inv host (dispatch host hs e s)"
  by (induction hs arbitrary: s) (simp_all add: inv_invoke)

lemma inv_step: "lifecycle_inv host s \<Longrightarrow> lifecycle_inv host (step cs host ev s)"
  by (cases ev) (simp_all add: inv_update inv_rerender inv_unmount inv_zoom inv_dispatch)

lemma inv_fold: "lifecycle_inv host s \<Longrightarrow> lifecycle_inv host (fold (step cs host) evs s)"
  by (induction evs arbitrary: s) (simp_all add: inv_step)

lemma inv_run: "lifecycle_inv host (run cs host evs (mount host p))"
  by (simp add: run_def inv_fold inv_mount)

subsection \<open>A closed panel stays closed under document clicks\<close>

lemma invoke_keeps_closed: "\<not> helpShowing s \<Longrightarrow> \<not> helpShowing (invoke host e s)"
  by (auto simp: invoke_def handleDocumentClick_def split: option.splits)

lemma dispatch_keeps_closed: "\<not> helpShowing s \<Longrightarrow> \<not> helpShowing (dispatch host hs e s)"
  by (induction hs arbitrary: s) (simp_all add: invoke_keeps_closed)

lemma cur_props_invoke [simp]: "cur_props (invoke host e s) = cur_props s"
  by (auto simp: invoke_def handleDocumentClick_def rerender_def attach_ref_def
      split: option.splits)

lemma cur_props_dispatch [simp]: "cur_props (dispatch host hs e s) = cur_props s"
  by (induction hs arbitrary: s) simp_all

subsection \<open>A disabled overlay stays disabled\<close>

lemma help_off_step:
  "help_off s \<Longrightarrow> keeps_help_off ev \<Longrightarrow> help_off (step cs host ev s)"
  by (cases ev)
    (auto simp: help_off_def dispatch_keeps_closed update_def run_effect_def run_cleanup_def
      attach_ref_def Let_def unmount_def zoom_def modifyZoom_def split: option.splits)

lemma help_off_fold:
  "help_off s \<Longrightarrow> list_all keeps_help_off evs \<Longrightarrow> help_off (fold (step cs host) evs s)"
  by (induction evs arbitrary: s) (simp_all add: help_off_step)

lemma help_off_mount: "\<not> truthy (showHelp p) \<Longrightarrow> help_off (mount host p)"
  by (simp add: help_off_def mount_def run_effect_def attach_ref_def Let_def)

subsection \<open>What an event does to the listeners\<close>

lemma click_listeners_rerender [simp]:
  "click_listeners (rerender host s) = click_listeners s"
  by (simp add: rerender_def attach_ref_def)

lemma click_listeners_invoke [simp]:
  "click_listeners (invoke host e s) = click_listeners s"
  by (auto simp: invoke_def handleDocumentClick_def split: option.splits)

lemma click_listeners_dispatch [simp]:
  "click_listeners (dispatch host hs e s) = click_listeners s"
  by (induction hs arbitrary: s) simp_all

lemma click_listeners_zoom [simp]: "click_listeners (zoom cs e s) = click_listeners s"
  by (simp add: zoom_def modifyZoom_def Let_def)

lemma click_listeners_update_same:
  "showHelp p = showHelp (cur_props s) \<Longrightarrow> click_listeners (update host p s) = click_listeners s"
  by (simp add: update_def attach_ref_def Let_def)

lemma click_listeners_update_on:
  assumes "lifecycle_inv host s" and "mounted s"
    and "truthy (showHelp p)" and "\<not> truthy (showHelp (cur_props s))"
  shows "click_listeners (update host p s) = [Suc (renders s)]"
proof -
  have "showHelp p \<noteq> showHelp (cur_props s)"
    using assms(3,4) by auto
  moreover have "effect_cleanup s = None" and "click_listeners s = []"
    using assms(1,4) by (auto simp: lifecycle_inv_def Let_def split: option.splits)
  ultimately show ?thesis
    using assms(3)
    by (simp add: update_def run_effect_def run_cleanup_def attach_ref_def Let_def
        addEventListener_def)
qed

lemma click_listeners_update_off:
  assumes "lifecycle_inv host s" and "mounted s" and "\<not> truthy (showHelp p)"
  shows "click_listeners (update host p s) = []"
proof -
  have "lifecycle_inv host (update host p s)"
    using assms(1,2) by (rule inv_update)
  moreover have "cur_props (update host p s) = p"
    by (simp add: update_def run_effect_def run_cleanup_def attach_ref_def Let_def
        split: option.splits)
  ultimately show ?thesis
    using assms(3) by (auto simp: lifecycle_inv_def Let_def split: option.splits)
qed

subsection \<open>No listener call throws in a run\<close>

lemma handleDocumentClick_unguarded:
  "helpContainerRef s = None \<Longrightarrow> handleDocumentClick e s = Inl TypeError"
  by (simp add: handleDocumentClick_def)







subsection \<open>The concrete states\<close>

lemma example_closed_eq:
  "example_closed =
     \<lparr>mounted = True, cur_props = example_props True, helpShowing = False,
      helpContainerRef = Some (example_host False), renders = 1, effect_cleanup = Some 1,
      click_listeners = [1], modifyZoom_calls = [], uncaught = []\<rparr>"
  by (simp add: example_closed_def mount_def run_effect_def attach_ref_def Let_def
      addEventListener_def example_props_def)

lemma example_open_eq:
  "example_open =
     \<lparr>mounted = True, cur_props = example_props True, helpShowing = True,
      helpContainerRef = Some (example_host True), renders = 2, effect_cleanup = Some 1,
      click_listeners = [1], modifyZoom_calls = [], uncaught = []\<rparr>"
  by (simp add: example_open_def example_closed_eq rerender_def attach_ref_def
      example_props_def)

lemma example_hidden_eq:
  "example_hidden =
     \<lparr>mounted = True, cur_props = example_props False, helpShowing = False,
      helpContainerRef = None, renders = 1, effect_cleanup = None,
      click_listeners = [], modifyZoom_calls = [], uncaught = []\<rparr>"
  by (simp add: example_hidden_def mount_def run_effect_def attach_ref_def Let_def
      removeEventListener_def example_props_def)

lemma example_open_hidden_eq:
  "example_open_hidden =
     \<lparr>mounted = True, cur_props = example_props False, helpShowing = True,
      helpContainerRef = None, renders = 3, effect_cleanup = None,
      click_listeners = [], modifyZoom_calls = [], uncaught = []\<rparr>"
  by (simp add: example_open_hidden_def example_open_eq update_def run_effect_def
      run_cleanup_def attach_ref_def Let_def removeEventListener_def example_props_def)

lemma example_reclosed_eq:
  "example_reclosed =
     \<lparr>mounted = True, cur_props = example_props True, helpShowing = False,
      helpContainerRef = Some (example_host False), renders = 3, effect_cleanup = Some 1,
      click_listeners = [1], modifyZoom_calls = [], uncaught = []\<rparr>"
proof -
  have "example_reclosed =
      step example_constants example_host (DocumentClick outside_click) example_open"
    by (simp add: example_reclosed_def run_def example_open_def example_closed_def)
  then show ?thesis
    by (simp add: example_open_eq invoke_def handleDocumentClick_def outside_click_def
        rerender_def attach_ref_def example_props_def)
qed

lemma example_open_hidden_run:
  "example_open_hidden =
     run example_constants example_host [HelpMouseDown, Update (example_props False)]
       (mount example_host (example_props True))"
  by (simp add: example_open_hidden_def example_open_def example_closed_def run_def)

lemma example_reclosed_run:
  "example_reclosed =
     run example_constants example_host [HelpMouseDown, DocumentClick outside_click]
       (mount example_host (example_props True))"
  by (simp add: example_reclosed_def)

lemma example_bounds:
  "min_zoom example_constants (example_props h) = 1"
  "max_zoom example_constants (example_props h) = 2"
  "zoomLevel (example_props h) = 3 / 2"
  "SLIDER_STEPS example_constants = 100"
  by (simp_all add: min_zoom_def max_zoom_def example_props_def example_constants_def)

section \<open>The zoom-range mapper and the zoom handler\<close>

text \<open>
  C5: for every integer \<open>p\<close> from 0 to the step count and bounds with \<open>lo < hi\<close>, mapping
  \<open>p\<close> to a zoom level and back gives \<open>p\<close> again. Over the reals the two maps are
  exact inverses, so the tolerance is zero.
\<close>

theorem slider_round_trip:
  assumes "0 < SLIDER_STEPS cs" and "lo < hi" and "p \<le> SLIDER_STEPS cs"
  shows "useZoomLevelToSliderValue cs (sliderToZoom cs (real p) lo hi) lo hi = real p"
  using assms by (simp add: useZoomLevelToSliderValue_def sliderToZoom_def)

theorem slider_round_trip_witness:
  "0 < SLIDER_STEPS example_constants \<and> (1::real) < 2 \<and> 80 \<le> SLIDER_STEPS example_constants
   \<and> useZoomLevelToSliderValue example_constants (sliderToZoom example_constants 80 1 2) 1 2 = 80"
  using slider_round_trip [of example_constants 1 2 80]
  by (simp add: example_bounds)

text \<open>
  C10: for bounds with \<open>lo < hi\<close>, the test as written with \<^verbatim>\<open>|| 0\<close> is the plain
  interval test \<open>lo \<le> z \<le> hi\<close>: the fallback replaces a bound only when the bound is
  zero, by zero.
\<close>

theorem in_range_as_written_plain:
  assumes "lo < hi"
  shows "js_or lo 0 = lo \<and> js_or hi 0 = hi
       \<and> in_range_as_written z lo hi = in_range_plain z lo hi"
  by (simp add: in_range_as_written_iff in_range_plain_def js_or_zero)

theorem in_range_as_written_plain_witness:
  "(0::real) < 2 \<and> js_or 0 0 = 0 \<and> js_or 2 0 = 2
   \<and> in_range_as_written 1 0 2 \<and> in_range_plain 1 0 2
   \<and> \<not> in_range_as_written (-1) 0 2 \<and> \<not> in_range_plain (-1) 0 2"
  using in_range_as_written_plain [of 0 2 1] in_range_as_written_plain [of 0 2 "-1"]
  by (simp add: in_range_plain_def)

text \<open>
  C3: a slider change whose position maps to a zoom level strictly outside the bounds
  does nothing: \<^verbatim>\<open>modifyZoom\<close> is not called, nothing is thrown and the state is the
  one before. With bounds 1 and 2 and zoom level 1.5, the position that maps to 2.5 is such
  an event.
\<close>

theorem zoom_out_of_range_noop:
  assumes "0 < SLIDER_STEPS cs"
    and "min_zoom cs (cur_props s) < max_zoom cs (cur_props s)"
    and "nextZoom =
           sliderToZoom cs (target_value e) (min_zoom cs (cur_props s)) (max_zoom cs (cur_props s))"
    and "nextZoom < min_zoom cs (cur_props s) \<or> max_zoom cs (cur_props s) < nextZoom"
  shows "zoom cs e s = s"
  using assms(3,4) by (auto simp: zoom_def Let_def in_range_as_written_iff)

theorem zoom_out_of_range_noop_witness:
  "0 < SLIDER_STEPS example_constants
   \<and> min_zoom example_constants (cur_props example_closed)
       < max_zoom example_constants (cur_props example_closed)
   \<and> zoomLevel (cur_props example_closed) = 3 / 2
   \<and> sliderToZoom example_constants 150 1 2 = 5 / 2
   \<and> zoom example_constants \<lparr>target_value = 150\<rparr> example_closed = example_closed
   \<and> modifyZoom_calls (zoom example_constants \<lparr>target_value = 150\<rparr> example_closed) = []"
  using zoom_out_of_range_noop [of example_constants example_closed "5 / 2" "\<lparr>target_value = 150\<rparr>"]
  by (simp add: example_closed_eq example_bounds sliderToZoom_def)

text \<open>
  C4: a slider change whose position maps to a zoom level \<open>nextZoom\<close> within the bounds
  calls \<^verbatim>\<open>modifyZoom\<close> exactly once, with \<open>nextZoom\<close> minus the current zoom level. With
  bounds 1 and 2 and zoom level 1.5, the position that maps to 1.8 gives the delta 0.3.
\<close>

theorem zoom_in_range_forwards_delta:
  assumes "0 < SLIDER_STEPS cs"
    and "min_zoom cs (cur_props s) < max_zoom cs (cur_props s)"
    and "nextZoom =
           sliderToZoom cs (target_value e) (min_zoom cs (cur_props s)) (max_zoom cs (cur_props s))"
    and "min_zoom cs (cur_props s) \<le> nextZoom" and "nextZoom \<le> max_zoom cs (cur_props s)"
  shows "zoom cs e s =
           s\<lparr>modifyZoom_calls := modifyZoom_calls s @ [nextZoom - zoomLevel (cur_props s)]\<rparr>"
  using assms(3-5) by (simp add: zoom_def Let_def in_range_as_written_iff modifyZoom_def)

theorem zoom_in_range_forwards_delta_witness:
  "0 < SLIDER_STEPS example_constants
   \<and> min_zoom example_constants (cur_props example_closed)
       < max_zoom example_constants (cur_props example_closed)
   \<and> zoomLevel (cur_props example_closed) = 3 / 2
   \<and> sliderToZoom example_constants 80 1 2 = 9 / 5
   \<and> modifyZoom_calls (zoom example_constants \<lparr>target_value = 80\<rparr> example_closed) = [3 / 10]"
  using zoom_in_range_forwards_delta [of example_constants example_closed "9 / 5" "\<lparr>target_value = 80\<rparr>"]
  by (simp add: example_closed_eq example_bounds sliderToZoom_def)

section \<open>The document click handler\<close>

text \<open>
  C6: while the panel is open and the reference holds the anchor element, a document
  click whose target is not contained in the anchor closes the panel, and a click whose
  target is contained in it leaves the panel open.
\<close>

theorem handleDocumentClick_open_panel:
  assumes "helpShowing s" and "helpContainerRef s = Some el"
  shows "(\<not> contains el (target e) \<longrightarrow>
            handleDocumentClick e s = Inr (s\<lparr>helpShowing := False\<rparr>)
            \<and> \<not> helpShowing (invoke host e s))
       \<and> (contains el (target e) \<longrightarrow>
            handleDocumentClick e s = Inr s \<and> helpShowing (invoke host e s))"
  using assms by (simp add: handleDocumentClick_def invoke_def)

theorem handleDocumentClick_open_panel_witness:
  "helpShowing example_open \<and> helpContainerRef example_open = Some (example_host True)
   \<and> \<not> contains (example_host True) (target outside_click)
   \<and> \<not> helpShowing (invoke example_host outside_click example_open)
   \<and> contains (example_host True) (target inside_click)
   \<and> helpShowing (invoke example_host inside_click example_open)"
  using handleDocumentClick_open_panel
      [of example_open "example_host True" outside_click example_host]
    handleDocumentClick_open_panel
      [of example_open "example_host True" inside_click example_host]
  by (simp add: example_open_eq outside_click_def inside_click_def)

text \<open>
  C9: the handler only ever closes the panel. When it returns, the panel is open
  afterwards only if it was open before and the target of the event was inside the
  anchor; and whatever the handler does, a closed panel is closed after the call.
\<close>

theorem handleDocumentClick_never_opens:
  "(handleDocumentClick e s = Inr s' \<longrightarrow> helpShowing s' \<longrightarrow>
      helpShowing s \<and> (\<exists>el. helpContainerRef s = Some el \<and> contains el (target e)))
   \<and> (helpShowing (invoke host e s) \<longrightarrow> helpShowing s)"
  using invoke_keeps_closed [of s host e]
  by (auto simp: handleDocumentClick_def split: option.splits if_splits)

theorem handleDocumentClick_never_opens_witness:
  "handleDocumentClick inside_click example_open = Inr example_open
   \<and> helpShowing (invoke example_host inside_click example_open)
   \<and> helpShowing example_open
   \<and> (\<exists>el. helpContainerRef example_open = Some el \<and> contains el (target inside_click))"
  using handleDocumentClick_never_opens
      [of inside_click example_open example_open example_host]
  by (simp add: example_open_eq inside_click_def handleDocumentClick_def invoke_def)



section \<open>The lifecycle of the document listener\<close>

text \<open>
  C1, as the code has it: after the mount and any sequence of events, the document has
  the click listener exactly while the component is mounted with a truthy
  \<^verbatim>\<open>showHelp\<close>, whether the panel is open or closed, and never more than one. Opening
  or closing the panel (by the button or by a document click) and a change of the slider
  leave the registered listeners as they are, and so does a render with an unchanged
  \<^verbatim>\<open>showHelp\<close>. A render in which \<^verbatim>\<open>showHelp\<close> becomes truthy registers the closure
  of that render; a render with a falsy \<^verbatim>\<open>showHelp\<close> and the teardown leave no
  listener. While the panel is closed, a document click leaves it closed.
\<close>

theorem click_listener_follows_showHelp:
  assumes "s = run cs host evs (mount host p)"
  shows "(click_listeners s \<noteq> [] \<longleftrightarrow> mounted s \<and> truthy (showHelp (cur_props s)))
       \<and> length (click_listeners s) \<le> 1
       \<and> click_listeners (step cs host Unmount s) = []
       \<and> (\<not> helpShowing s \<longrightarrow> \<not> helpShowing (step cs host (DocumentClick e) s))
       \<and> click_listeners (step cs host HelpMouseDown s) = click_listeners s
       \<and> click_listeners (step cs host (DocumentClick e) s) = click_listeners s
       \<and> click_listeners (step cs host (SliderChange c) s) = click_listeners s
       \<and> (showHelp p' = showHelp (cur_props s) \<longrightarrow>
            click_listeners (step cs host (Update p') s) = click_listeners s)
       \<and> (mounted s \<and> truthy (showHelp p') \<and> \<not> truthy (showHelp (cur_props s)) \<longrightarrow>
            click_listeners (step cs host (Update p') s) = [Suc (renders s)])
       \<and> (mounted s \<and> \<not> truthy (showHelp p') \<longrightarrow>
            click_listeners (step cs host (Update p') s) = [])"
proof -
  have inv: "lifecycle_inv host s"
    unfolding assms by (rule inv_run)
  have "lifecycle_inv host (step cs host Unmount s)"
    using inv by (rule inv_step)
  then have a: "click_listeners (step cs host Unmount s) = []"
    by (auto simp: lifecycle_inv_def Let_def unmount_def split: option.splits if_splits)
  have b: "click_listeners s \<noteq> [] \<longleftrightarrow> mounted s \<and> truthy (showHelp (cur_props s))"
    using inv by (auto simp: lifecycle_inv_def Let_def split: option.splits)
  have c: "length (click_listeners s) \<le> 1"
    using inv by (auto simp: lifecycle_inv_def Let_def split: option.splits)
  have d: "\<not> helpShowing s \<longrightarrow> \<not> helpShowing (step cs host (DocumentClick e) s)"
    by (simp add: dispatch_keeps_closed)
  have f: "click_listeners (step cs host HelpMouseDown s) = click_listeners s"
    "click_listeners (step cs host (DocumentClick e) s) = click_listeners s"
    "click_listeners (step cs host (SliderChange c) s) = click_listeners s"
    by simp_all
  have g: "showHelp p' = showHelp (cur_props s) \<longrightarrow>
      click_listeners (step cs host (Update p') s) = click_listeners s"
    by (simp add: click_listeners_update_same)
  have h: "mounted s \<and> truthy (showHelp p') \<and> \<not> truthy (showHelp (cur_props s)) \<longrightarrow>
      click_listeners (step cs host (Update p') s) = [Suc (renders s)]"
    using inv by (simp add: click_listeners_update_on)
  have k: "mounted s \<and> \<not> truthy (showHelp p') \<longrightarrow>
      click_listeners (step cs host (Update p') s) = []"
    using inv by (simp add: click_listeners_update_off)
  from a b c d f g h k show ?thesis by blast
qed

theorem click_listener_follows_showHelp_witness:
  "example_reclosed =
     run example_constants example_host [HelpMouseDown, DocumentClick outside_click]
       (mount example_host (example_props True))
   \<and> click_listeners example_reclosed = [1]
   \<and> mounted example_reclosed \<and> truthy (showHelp (cur_props example_reclosed))
   \<and> \<not> helpShowing example_reclosed
   \<and> \<not> helpShowing
         (step example_constants example_host (DocumentClick outside_click) example_reclosed)
   \<and> click_listeners (step example_constants example_host Unmount example_reclosed) = []
   \<and> click_listeners (step example_constants example_host HelpMouseDown example_reclosed) = [1]
   \<and> click_listeners
       (step example_constants example_host (DocumentClick outside_click) example_reclosed) = [1]
   \<and> click_listeners
       (step example_constants example_host (SliderChange \<lparr>target_value = 80\<rparr>)
          example_reclosed) = [1]
   \<and> click_listeners
       (step example_constants example_host (Update (example_props True)) example_reclosed) = [1]
   \<and> click_listeners
       (step example_constants example_host (Update (example_props False)) example_reclosed) = []
   \<and> example_open_hidden =
       run example_constants example_host [HelpMouseDown, Update (example_props False)]
         (mount example_host (example_props True))
   \<and> click_listeners example_open_hidden = []
   \<and> click_listeners
       (step example_constants example_host (Update (example_props True)) example_open_hidden)
       = [4]"
proof -
  have "click_listeners example_reclosed = [1]
      \<and> mounted example_reclosed \<and> truthy (showHelp (cur_props example_reclosed))
      \<and> \<not> helpShowing example_reclosed
      \<and> \<not> helpShowing
            (step example_constants example_host (DocumentClick outside_click) example_reclosed)
      \<and> click_listeners (step example_constants example_host Unmount example_reclosed) = []
      \<and> click_listeners (step example_constants example_host HelpMouseDown example_reclosed)
          = [1]
      \<and> click_listeners
          (step example_constants example_host (DocumentClick outside_click) example_reclosed)
          = [1]
      \<and> click_listeners
          (step example_constants example_host (SliderChange \<lparr>target_value = 80\<rparr>)
             example_reclosed) = [1]
      \<and> click_listeners
          (step example_constants example_host (Update (example_props True)) example_reclosed)
          = [1]"
    using click_listener_follows_showHelp
        [OF example_reclosed_run, of outside_click "\<lparr>target_value = 80\<rparr>" "example_props True"]
    by (simp add: example_reclosed_eq example_props_def)
  moreover have "click_listeners
      (step example_constants example_host (Update (example_props False)) example_reclosed) = []"
    using click_listener_follows_showHelp
        [OF example_reclosed_run, of outside_click "\<lparr>target_value = 80\<rparr>" "example_props False"]
    by (simp add: example_reclosed_eq example_props_def)
  moreover have "click_listeners example_open_hidden = []
      \<and> click_listeners
          (step example_constants example_host (Update (example_props True))
             example_open_hidden) = [4]"
    using click_listener_follows_showHelp
        [OF example_open_hidden_run, of outside_click "\<lparr>target_value = 80\<rparr>"
          "example_props True"]
    by (simp add: example_open_hidden_eq example_props_def)
  ultimately show ?thesis
    using example_reclosed_run example_open_hidden_run by blast
qed

text \<open>Right after the mount with the overlay enabled the panel is closed and the listener
  is registered; opening the panel registers nothing, and closing it by an outside click
  removes nothing.\<close>

theorem click_listener_active_while_closed:
  "\<not> helpShowing example_closed \<and> click_listeners example_closed = [1]
   \<and> helpShowing example_open \<and> click_listeners example_open = [1]
   \<and> \<not> helpShowing
         (step example_constants example_host (DocumentClick outside_click) example_open)
   \<and> click_listeners
         (step example_constants example_host (DocumentClick outside_click) example_open) = [1]"
  by (simp add: example_closed_eq example_open_eq invoke_def handleDocumentClick_def
      outside_click_def rerender_def attach_ref_def)

text \<open>
  C7: when \<^verbatim>\<open>showHelp\<close> is falsy at the mount and in every later render, then at every
  point of every sequence of events the document has no click listener of the component,
  the output has no help container (neither the toggle button nor the panel), the
  reference is unset and the panel state never leaves closed.
\<close>

theorem showHelp_off_never_listens:
  assumes "\<not> truthy (showHelp p)" and "list_all keeps_help_off evs"
    and "s = run cs host (take n evs) (mount host p)"
  shows "click_listeners s = [] \<and> help_area (render cs s) = None
       \<and> \<not> helpShowing s \<and> helpContainerRef s = None"
proof -
  have "list_all keeps_help_off (take n evs)"
    using assms(2) by (auto simp: list_all_iff dest: in_set_takeD)
  then have off: "help_off s"
    unfolding assms(3) run_def using assms(1) by (intro help_off_fold help_off_mount)
  have inv: "lifecycle_inv host s"
    unfolding assms(3) by (rule inv_run)
  from off inv show ?thesis
    by (auto simp: help_off_def lifecycle_inv_def render_def Let_def split: option.splits)
qed

theorem showHelp_off_never_listens_witness:
  "\<not> truthy (showHelp (example_props False))
   \<and> list_all keeps_help_off
       [HelpMouseDown, Update (example_props False), DocumentClick outside_click]
   \<and> click_listeners
       (run example_constants example_host
          [HelpMouseDown, Update (example_props False), DocumentClick outside_click]
          example_hidden) = []
   \<and> help_area
       (render example_constants
          (run example_constants example_host
             [HelpMouseDown, Update (example_props False), DocumentClick outside_click]
             example_hidden)) = None"
  using showHelp_off_never_listens
      [of "example_props False"
          "[HelpMouseDown, Update (example_props False), DocumentClick outside_click]"
          _ example_constants example_host 3, OF _ _ refl]
  by (simp add: example_props_def example_hidden_def)

end
